theory Spec2Isabelle
  imports Main "HOL-Library.Sublist"
begin

section \<open>Preprocessor tokens, macro environments and \<open>#define\<close>\<close>

text \<open>
  \<open>MX_Device.h\<close> consists of object-like \<open>#define\<close> directives only. The replacement
  list of a directive is a list of preprocessing tokens: in this header either an integer
  literal (\<open>1\<close>, \<open>84000000\<close>, \<open>0x01000000\<close>) or an identifier (\<open>GPIOB\<close>, \<open>Cdc_FS\<close>), and for
  the include guard the empty list.
\<close>

datatype pp_token = Num int | Ident string

type_synonym macro_env = "string \<rightharpoonup> pp_token list"

text \<open>
  The one way a list of \<open>#define\<close>s can fail is at compile time: defining a name again
  with a different replacement list. Defining it again with the same list is accepted.
\<close>

datatype cpp_error = Redefinition string

fun cpp_define :: "string \<Rightarrow> pp_token list \<Rightarrow> macro_env \<Rightarrow> cpp_error + macro_env" where
  "cpp_define n body env =
     (case env n of
        None \<Rightarrow> Inr (env(n \<mapsto> body))
      | Some old \<Rightarrow> if old = body then Inr env else Inl (Redefinition n))"

fun cpp_process :: "(string \<times> pp_token list) list \<Rightarrow> macro_env \<Rightarrow> cpp_error + macro_env" where
  "cpp_process [] env = Inr env"
| "cpp_process ((n, body) # ds) env =
     (case cpp_define n body env of
        Inl e \<Rightarrow> Inl e
      | Inr env' \<Rightarrow> cpp_process ds env')"

text \<open>
  \<open>#ifndef G\<close> / \<open>#define G\<close> / body / \<open>#endif\<close>: the body is processed only when the
  guard is not defined yet, after the guard has been defined with an empty replacement list.
\<close>

definition cpp_include_guarded ::
  "string \<Rightarrow> (string \<times> pp_token list) list \<Rightarrow> macro_env \<Rightarrow> cpp_error + macro_env" where
  "cpp_include_guarded guard body env =
     (case env guard of
        Some _ \<Rightarrow> Inr env
      | None \<Rightarrow> cpp_process body (env(guard \<mapsto> [])))"


section \<open>The header \<open>MX_Device.h\<close>\<close>

text \<open>
  The banner comments of the header divide it into the version block and one block per
  peripheral.
\<close>

datatype mx_group = G_VERSION | G_I2C1 | G_SPI1 | G_USB_DEVICE | G_USB_OTG_FS

definition MX_DEVICE_H_guard :: string where
  "MX_DEVICE_H_guard = ''MX_DEVICE_H__''"

text \<open>The directives between the guard and \<open>#endif\<close>, in file order, block by block.\<close>

definition MX_Device_h :: "(mx_group \<times> (string \<times> pp_token list) list) list" where
  "MX_Device_h =
   [(G_VERSION,
      [(''MX_DEVICE_VERSION'', [Num 0x01000000])]),
    (G_I2C1,
      [(''MX_I2C1'', [Num 1]),
       (''MX_I2C1_SCL_Pin'', [Ident ''PB6'']),
       (''MX_I2C1_SCL_GPIO_Pin'', [Ident ''GPIO_PIN_6'']),
       (''MX_I2C1_SCL_GPIOx'', [Ident ''GPIOB'']),
       (''MX_I2C1_SCL_GPIO_Mode'', [Ident ''GPIO_MODE_AF_OD'']),
       (''MX_I2C1_SCL_GPIO_PuPd'', [Ident ''GPIO_PULLUP'']),
       (''MX_I2C1_SCL_GPIO_Speed'', [Ident ''GPIO_SPEED_FREQ_LOW'']),
       (''MX_I2C1_SCL_GPIO_AF'', [Ident ''GPIO_AF4_I2C1'']),
       (''MX_I2C1_SDA_Pin'', [Ident ''PB9'']),
       (''MX_I2C1_SDA_GPIO_Pin'', [Ident ''GPIO_PIN_9'']),
       (''MX_I2C1_SDA_GPIOx'', [Ident ''GPIOB'']),
       (''MX_I2C1_SDA_GPIO_Mode'', [Ident ''GPIO_MODE_AF_OD'']),
       (''MX_I2C1_SDA_GPIO_PuPd'', [Ident ''GPIO_PULLUP'']),
       (''MX_I2C1_SDA_GPIO_Speed'', [Ident ''GPIO_SPEED_FREQ_LOW'']),
       (''MX_I2C1_SDA_GPIO_AF'', [Ident ''GPIO_AF4_I2C1''])]),
    (G_SPI1,
      [(''MX_SPI1'', [Num 1]),
       (''MX_SPI1_PERIPH_CLOCK_FREQ'', [Num 84000000]),
       (''MX_SPI1_MISO_Pin'', [Ident ''PA6'']),
       (''MX_SPI1_MISO_GPIO_Pin'', [Ident ''GPIO_PIN_6'']),
       (''MX_SPI1_MISO_GPIOx'', [Ident ''GPIOA'']),
       (''MX_SPI1_MISO_GPIO_Mode'', [Ident ''GPIO_MODE_AF_PP'']),
       (''MX_SPI1_MISO_GPIO_PuPd'', [Ident ''GPIO_NOPULL'']),
       (''MX_SPI1_MISO_GPIO_Speed'', [Ident ''GPIO_SPEED_FREQ_LOW'']),
       (''MX_SPI1_MISO_GPIO_AF'', [Ident ''GPIO_AF5_SPI1'']),
       (''MX_SPI1_MOSI_Pin'', [Ident ''PA7'']),
       (''MX_SPI1_MOSI_GPIO_Pin'', [Ident ''GPIO_PIN_7'']),
       (''MX_SPI1_MOSI_GPIOx'', [Ident ''GPIOA'']),
       (''MX_SPI1_MOSI_GPIO_Mode'', [Ident ''GPIO_MODE_AF_PP'']),
       (''MX_SPI1_MOSI_GPIO_PuPd'', [Ident ''GPIO_NOPULL'']),
       (''MX_SPI1_MOSI_GPIO_Speed'', [Ident ''GPIO_SPEED_FREQ_LOW'']),
       (''MX_SPI1_MOSI_GPIO_AF'', [Ident ''GPIO_AF5_SPI1'']),
       (''MX_SPI1_SCK_Pin'', [Ident ''PA5'']),
       (''MX_SPI1_SCK_GPIO_Pin'', [Ident ''GPIO_PIN_5'']),
       (''MX_SPI1_SCK_GPIOx'', [Ident ''GPIOA'']),
       (''MX_SPI1_SCK_GPIO_Mode'', [Ident ''GPIO_MODE_AF_PP'']),
       (''MX_SPI1_SCK_GPIO_PuPd'', [Ident ''GPIO_NOPULL'']),
       (''MX_SPI1_SCK_GPIO_Speed'', [Ident ''GPIO_SPEED_FREQ_VERY_HIGH'']),
       (''MX_SPI1_SCK_GPIO_AF'', [Ident ''GPIO_AF5_SPI1''])]),
    (G_USB_DEVICE,
      [(''MX_USB_DEVICE'', [Num 1]),
       (''MX_USB_DEVICE_VM'', [Ident ''Cdc_FS'']),
       (''MX_USB_DEVICE_Cdc_FS'', [Num 1])]),
    (G_USB_OTG_FS,
      [(''MX_USB_OTG_FS'', [Num 1]),
       (''MX_USB_OTG_FS_VM'', [Ident ''Device_Only'']),
       (''MX_USB_OTG_FS_Device_Only'', [Num 1])])]"

text \<open>The same directives without the block structure, as the preprocessor sees them.\<close>

definition mx_defines :: "(string \<times> pp_token list) list" where
  "mx_defines = concat (map snd MX_Device_h)"

definition mx_names :: "string list" where
  "mx_names = map fst mx_defines"

text \<open>Including the header: the guarded processing of its directives.\<close>

definition include_MX_Device_h :: "macro_env \<Rightarrow> cpp_error + macro_env" where
  "include_MX_Device_h env = cpp_include_guarded MX_DEVICE_H_guard mx_defines env"

text \<open>
  The constant environment of a translation unit that includes the header first. Lookup of
  a constant is application of the environment to its name.
\<close>

definition MX_env :: macro_env where
  "MX_env = (case include_MX_Device_h Map.empty of Inr env \<Rightarrow> env | Inl _ \<Rightarrow> Map.empty)"

definition mx_lookup :: "string \<Rightarrow> pp_token list option" where
  "mx_lookup n = MX_env n"

text \<open>The block a name is defined in.\<close>

definition mx_group_of :: "string \<Rightarrow> mx_group option" where
  "mx_group_of n = map_of (concat (map (\<lambda>(g, ds). map (\<lambda>(m, b). (m, g)) ds) MX_Device_h)) n"


section \<open>Pins and their attributes\<close>

text \<open>
  Inside the I2C1 and SPI1 blocks the header has one sub-block per pin, headed by a comment
  with the pin's name. A pin's constants are named \<open>MX_<pin>_<attribute>\<close>.
\<close>

definition mx_pins :: "string list" where
  "mx_pins = [''I2C1_SCL'', ''I2C1_SDA'', ''SPI1_MISO'', ''SPI1_MOSI'', ''SPI1_SCK'']"

definition pin_attrs :: "string list" where
  "pin_attrs =
     [''Pin'', ''GPIO_Pin'', ''GPIOx'', ''GPIO_Mode'', ''GPIO_PuPd'', ''GPIO_Speed'', ''GPIO_AF'']"

definition pin_const :: "string \<Rightarrow> string \<Rightarrow> string" where
  "pin_const p a = ''MX_'' @ p @ ''_'' @ a"

text \<open>How many directives of the header define a given name.\<close>

definition define_count :: "string \<Rightarrow> nat" where
  "define_count n = length (filter (\<lambda>(m, b). m = n) mx_defines)"

text \<open>
  The port/mode/speed/alternate-function tuples that the directives of the header give to
  a pin: a relation, so that two directives for one attribute would show as two tuples.
\<close>

definition pin_has_tuple ::
  "string \<Rightarrow> pp_token list \<times> pp_token list \<times> pp_token list \<times> pp_token list \<Rightarrow> bool" where
  "pin_has_tuple p t =
     (case t of (port, mode, speed, af) \<Rightarrow>
        (pin_const p ''GPIOx'', port) \<in> set mx_defines \<and>
        (pin_const p ''GPIO_Mode'', mode) \<in> set mx_defines \<and>
        (pin_const p ''GPIO_Speed'', speed) \<in> set mx_defines \<and>
        (pin_const p ''GPIO_AF'', af) \<in> set mx_defines)"


section \<open>Conditional compilation on a constant\<close>

text \<open>
  \<open>#ifdef N\<close> holds when \<open>N\<close> is defined; \<open>#if N\<close> holds when \<open>N\<close> is replaced by a
  non-zero integer (an identifier that is not a macro counts as 0).
\<close>

definition cpp_ifdef :: "macro_env \<Rightarrow> string \<Rightarrow> bool" where
  "cpp_ifdef env n = (env n \<noteq> None)"

definition cpp_if :: "macro_env \<Rightarrow> string \<Rightarrow> bool" where
  "cpp_if env n = (case env n of Some [Num v] \<Rightarrow> v \<noteq> 0 | _ \<Rightarrow> False)"


section \<open>The data model of the specification\<close>

text \<open>
  The specification describes the header as constants grouped by peripheral: each pin entry
  carries a pin name, a pin-bit identifier, a port, a mode, a pull setting, a speed and an
  alternate function; a peripheral may carry a clock frequency and a virtual-mode selector.
  \<open>MX_Device_model\<close> is the header's content in that shape, and \<open>declare_device\<close>
  declares one constant for every field of it.
\<close>

record pin_entry =
  pin_signal :: string
  Pin :: string
  GPIO_Pin :: string
  GPIOx :: string
  GPIO_Mode :: string
  GPIO_PuPd :: string
  GPIO_Speed :: string
  GPIO_AF :: string

record peripheral =
  periph :: mx_group
  enabled :: int
  PERIPH_CLOCK_FREQ :: "int option"
  pin_entries :: "pin_entry list"
  VM :: "string option"

record mx_device =
  DEVICE_VERSION :: int
  peripherals :: "peripheral list"

fun group_name :: "mx_group \<Rightarrow> string" where
  "group_name G_VERSION = ''DEVICE_VERSION''"
| "group_name G_I2C1 = ''I2C1''"
| "group_name G_SPI1 = ''SPI1''"
| "group_name G_USB_DEVICE = ''USB_DEVICE''"
| "group_name G_USB_OTG_FS = ''USB_OTG_FS''"

definition declare_pin :: "string \<Rightarrow> pin_entry \<Rightarrow> (string \<times> pp_token list) list" where
  "declare_pin g p =
     (let q = g @ ''_'' @ pin_signal p in
      [(pin_const q ''Pin'', [Ident (Pin p)]),
       (pin_const q ''GPIO_Pin'', [Ident (GPIO_Pin p)]),
       (pin_const q ''GPIOx'', [Ident (GPIOx p)]),
       (pin_const q ''GPIO_Mode'', [Ident (GPIO_Mode p)]),
       (pin_const q ''GPIO_PuPd'', [Ident (GPIO_PuPd p)]),
       (pin_const q ''GPIO_Speed'', [Ident (GPIO_Speed p)]),
       (pin_const q ''GPIO_AF'', [Ident (GPIO_AF p)])])"

definition declare_peripheral ::
  "peripheral \<Rightarrow> mx_group \<times> (string \<times> pp_token list) list" where
  "declare_peripheral P =
     (let g = group_name (periph P) in
      (periph P,
       [(''MX_'' @ g, [Num (enabled P)])] @
       (case PERIPH_CLOCK_FREQ P of
          None \<Rightarrow> []
        | Some f \<Rightarrow> [(''MX_'' @ g @ ''_PERIPH_CLOCK_FREQ'', [Num f])]) @
       concat (map (declare_pin g) (pin_entries P)) @
       (case VM P of
          None \<Rightarrow> []
        | Some v \<Rightarrow> [(''MX_'' @ g @ ''_VM'', [Ident v]), (''MX_'' @ g @ ''_'' @ v, [Num 1])])))"

definition declare_device ::
  "mx_device \<Rightarrow> (mx_group \<times> (string \<times> pp_token list) list) list" where
  "declare_device D =
     (G_VERSION, [(''MX_'' @ group_name G_VERSION, [Num (DEVICE_VERSION D)])]) #
     map declare_peripheral (peripherals D)"

definition MX_Device_model :: mx_device where
  "MX_Device_model =
   \<lparr>DEVICE_VERSION = 0x01000000,
    peripherals =
     [\<lparr>periph = G_I2C1, enabled = 1, PERIPH_CLOCK_FREQ = None,
       pin_entries =
        [\<lparr>pin_signal = ''SCL'', Pin = ''PB6'', GPIO_Pin = ''GPIO_PIN_6'', GPIOx = ''GPIOB'',
          GPIO_Mode = ''GPIO_MODE_AF_OD'', GPIO_PuPd = ''GPIO_PULLUP'',
          GPIO_Speed = ''GPIO_SPEED_FREQ_LOW'', GPIO_AF = ''GPIO_AF4_I2C1''\<rparr>,
         \<lparr>pin_signal = ''SDA'', Pin = ''PB9'', GPIO_Pin = ''GPIO_PIN_9'', GPIOx = ''GPIOB'',
          GPIO_Mode = ''GPIO_MODE_AF_OD'', GPIO_PuPd = ''GPIO_PULLUP'',
          GPIO_Speed = ''GPIO_SPEED_FREQ_LOW'', GPIO_AF = ''GPIO_AF4_I2C1''\<rparr>],
       VM = None\<rparr>,
      \<lparr>periph = G_SPI1, enabled = 1, PERIPH_CLOCK_FREQ = Some 84000000,
       pin_entries =
        [\<lparr>pin_signal = ''MISO'', Pin = ''PA6'', GPIO_Pin = ''GPIO_PIN_6'', GPIOx = ''GPIOA'',
          GPIO_Mode = ''GPIO_MODE_AF_PP'', GPIO_PuPd = ''GPIO_NOPULL'',
          GPIO_Speed = ''GPIO_SPEED_FREQ_LOW'', GPIO_AF = ''GPIO_AF5_SPI1''\<rparr>,
         \<lparr>pin_signal = ''MOSI'', Pin = ''PA7'', GPIO_Pin = ''GPIO_PIN_7'', GPIOx = ''GPIOA'',
          GPIO_Mode = ''GPIO_MODE_AF_PP'', GPIO_PuPd = ''GPIO_NOPULL'',
          GPIO_Speed = ''GPIO_SPEED_FREQ_LOW'', GPIO_AF = ''GPIO_AF5_SPI1''\<rparr>,
         \<lparr>pin_signal = ''SCK'', Pin = ''PA5'', GPIO_Pin = ''GPIO_PIN_5'', GPIOx = ''GPIOA'',
          GPIO_Mode = ''GPIO_MODE_AF_PP'', GPIO_PuPd = ''GPIO_NOPULL'',
          GPIO_Speed = ''GPIO_SPEED_FREQ_VERY_HIGH'', GPIO_AF = ''GPIO_AF5_SPI1''\<rparr>],
       VM = None\<rparr>,
      \<lparr>periph = G_USB_DEVICE, enabled = 1, PERIPH_CLOCK_FREQ = None,
       pin_entries = [], VM = Some ''Cdc_FS''\<rparr>,
      \<lparr>periph = G_USB_OTG_FS, enabled = 1, PERIPH_CLOCK_FREQ = None,
       pin_entries = [], VM = Some ''Device_Only''\<rparr>]\<rparr>"


section \<open>Consistent lists of directives\<close>

text \<open>
  A list of directives is consistent when no name occurs with two different replacement
  lists, and it agrees with an environment when it repeats at most what is defined there.
\<close>

definition consistent :: "(string \<times> pp_token list) list \<Rightarrow> bool" where
  "consistent ds = (\<forall>(n, b) \<in> set ds. \<forall>(n', b') \<in> set ds. n = n' \<longrightarrow> b = b')"

definition agrees :: "(string \<times> pp_token list) list \<Rightarrow> macro_env \<Rightarrow> bool" where
  "agrees ds env = (\<forall>(n, b) \<in> set ds. env n = None \<or> env n = Some b)"


section \<open>Basic facts about processing directives\<close>

lemma consistentD: "consistent ds \<Longrightarrow> (n, b) \<in> set ds \<Longrightarrow> (n, b') \<in> set ds \<Longrightarrow> b = b'"
  unfolding consistent_def by blast

lemma agreesD: "agrees ds env \<Longrightarrow> (n, b) \<in> set ds \<Longrightarrow> env n = None \<or> env n = Some b"
  unfolding agrees_def by blast

lemma agreesI: "(\<And>n b. (n, b) \<in> set ds \<Longrightarrow> env n = None \<or> env n = Some b) \<Longrightarrow> agrees ds env"
  unfolding agrees_def by blast

lemma cpp_define_agrees:
  assumes "env n = None \<or> env n = Some b"
  shows "cpp_define n b env = Inr (env(n \<mapsto> b))"
  using assms by (auto simp: map_upd_triv)

lemma consistent_tail: "consistent (d # ds) \<Longrightarrow> consistent ds"
  by (auto simp: consistent_def)

lemma consistent_map_of:
  assumes "consistent ds" and "(n, b) \<in> set ds"
  shows "map_of ds n = Some b"
proof -
  from assms(2) obtain b' where b': "map_of ds n = Some b'"
    using weak_map_of_SomeI by fastforce
  then have "(n, b') \<in> set ds" by (rule map_of_SomeD)
  with assms have "b' = b" by (blast dest: consistentD)
  with b' show ?thesis by simp
qed

lemma cpp_process_consistent:
  "consistent ds \<Longrightarrow> agrees ds env \<Longrightarrow> cpp_process ds env = Inr (env ++ map_of ds)"
proof (induction ds arbitrary: env)
  case Nil
  then show ?case by simp
next
  case (Cons d ds)
  obtain n b where d: "d = (n, b)" by (cases d)
  have hd: "(n, b) \<in> set (d # ds)" using d by simp
  have step: "cpp_define n b env = Inr (env(n \<mapsto> b))"
    using agreesD [OF Cons.prems(2) hd] by (rule cpp_define_agrees)
  have cons: "consistent ds" using Cons.prems(1) by (rule consistent_tail)
  have agr: "agrees ds (env(n \<mapsto> b))"
  proof (rule agreesI)
    fix m c assume mc: "(m, c) \<in> set ds"
    then have mc': "(m, c) \<in> set (d # ds)" by simp
    show "(env(n \<mapsto> b)) m = None \<or> (env(n \<mapsto> b)) m = Some c"
    proof (cases "m = n")
      case True
      with consistentD [OF Cons.prems(1) hd] mc' have "b = c" by blast
      with True show ?thesis by simp
    next
      case False
      with agreesD [OF Cons.prems(2) mc'] show ?thesis by simp
    qed
  qed
  have same: "env(n \<mapsto> b) ++ map_of ds = (env ++ map_of ds)(n \<mapsto> b)"
  proof (cases "n \<in> dom (map_of ds)")
    case False
    then show ?thesis by (rule map_add_upd_left)
  next
    case True
    then obtain b' where b': "map_of ds n = Some b'" by auto
    then have "(n, b') \<in> set (d # ds)" by (auto dest: map_of_SomeD)
    with consistentD [OF Cons.prems(1) hd] have "b' = b" by blast
    with b' show ?thesis by (auto simp: map_add_def fun_eq_iff split: option.splits)
  qed
  have "cpp_process (d # ds) env = cpp_process ds (env(n \<mapsto> b))"
    using step d by (simp del: cpp_define.simps)
  also have "\<dots> = Inr (env(n \<mapsto> b) ++ map_of ds)"
    using cons agr by (rule Cons.IH)
  also have "\<dots> = Inr (env ++ map_of (d # ds))"
    using same d by simp
  finally show ?case .
qed

lemma consistent_map_of_eq:
  assumes "consistent ds" and "set ds' = set ds"
  shows "map_of ds' = map_of ds"
proof
  fix n
  have c': "consistent ds'" using assms by (simp add: consistent_def)
  show "map_of ds' n = map_of ds n"
  proof (cases "map_of ds n")
    case None
    then have "n \<notin> fst ` set ds" by (simp add: map_of_eq_None_iff)
    then have "n \<notin> fst ` set ds'" using assms(2) by simp
    then have "map_of ds' n = None" by (simp add: map_of_eq_None_iff)
    with None show ?thesis by simp
  next
    case (Some b)
    then have "(n, b) \<in> set ds'" using assms(2) by (auto dest: map_of_SomeD)
    with c' have "map_of ds' n = Some b" by (rule consistent_map_of)
    with Some show ?thesis by simp
  qed
qed

lemma distinct_consistent: "distinct (map fst ds) \<Longrightarrow> consistent ds"
  by (auto simp: consistent_def dest: eq_key_imp_eq_value)

lemma mx_defines_flat:
  "mx_defines =
   [(''MX_DEVICE_VERSION'', [Num 0x01000000]),
    (''MX_I2C1'', [Num 1]),
    (''MX_I2C1_SCL_Pin'', [Ident ''PB6'']),
    (''MX_I2C1_SCL_GPIO_Pin'', [Ident ''GPIO_PIN_6'']),
    (''MX_I2C1_SCL_GPIOx'', [Ident ''GPIOB'']),
    (''MX_I2C1_SCL_GPIO_Mode'', [Ident ''GPIO_MODE_AF_OD'']),
    (''MX_I2C1_SCL_GPIO_PuPd'', [Ident ''GPIO_PULLUP'']),
    (''MX_I2C1_SCL_GPIO_Speed'', [Ident ''GPIO_SPEED_FREQ_LOW'']),
    (''MX_I2C1_SCL_GPIO_AF'', [Ident ''GPIO_AF4_I2C1'']),
    (''MX_I2C1_SDA_Pin'', [Ident ''PB9'']),
    (''MX_I2C1_SDA_GPIO_Pin'', [Ident ''GPIO_PIN_9'']),
    (''MX_I2C1_SDA_GPIOx'', [Ident ''GPIOB'']),
    (''MX_I2C1_SDA_GPIO_Mode'', [Ident ''GPIO_MODE_AF_OD'']),
    (''MX_I2C1_SDA_GPIO_PuPd'', [Ident ''GPIO_PULLUP'']),
    (''MX_I2C1_SDA_GPIO_Speed'', [Ident ''GPIO_SPEED_FREQ_LOW'']),
    (''MX_I2C1_SDA_GPIO_AF'', [Ident ''GPIO_AF4_I2C1'']),
    (''MX_SPI1'', [Num 1]),
    (''MX_SPI1_PERIPH_CLOCK_FREQ'', [Num 84000000]),
    (''MX_SPI1_MISO_Pin'', [Ident ''PA6'']),
    (''MX_SPI1_MISO_GPIO_Pin'', [Ident ''GPIO_PIN_6'']),
    (''MX_SPI1_MISO_GPIOx'', [Ident ''GPIOA'']),
    (''MX_SPI1_MISO_GPIO_Mode'', [Ident ''GPIO_MODE_AF_PP'']),
    (''MX_SPI1_MISO_GPIO_PuPd'', [Ident ''GPIO_NOPULL'']),
    (''MX_SPI1_MISO_GPIO_Speed'', [Ident ''GPIO_SPEED_FREQ_LOW'']),
    (''MX_SPI1_MISO_GPIO_AF'', [Ident ''GPIO_AF5_SPI1'']),
    (''MX_SPI1_MOSI_Pin'', [Ident ''PA7'']),
    (''MX_SPI1_MOSI_GPIO_Pin'', [Ident ''GPIO_PIN_7'']),
    (''MX_SPI1_MOSI_GPIOx'', [Ident ''GPIOA'']),
    (''MX_SPI1_MOSI_GPIO_Mode'', [Ident ''GPIO_MODE_AF_PP'']),
    (''MX_SPI1_MOSI_GPIO_PuPd'', [Ident ''GPIO_NOPULL'']),
    (''MX_SPI1_MOSI_GPIO_Speed'', [Ident ''GPIO_SPEED_FREQ_LOW'']),
    (''MX_SPI1_MOSI_GPIO_AF'', [Ident ''GPIO_AF5_SPI1'']),
    (''MX_SPI1_SCK_Pin'', [Ident ''PA5'']),
    (''MX_SPI1_SCK_GPIO_Pin'', [Ident ''GPIO_PIN_5'']),
    (''MX_SPI1_SCK_GPIOx'', [Ident ''GPIOA'']),
    (''MX_SPI1_SCK_GPIO_Mode'', [Ident ''GPIO_MODE_AF_PP'']),
    (''MX_SPI1_SCK_GPIO_PuPd'', [Ident ''GPIO_NOPULL'']),
    (''MX_SPI1_SCK_GPIO_Speed'', [Ident ''GPIO_SPEED_FREQ_VERY_HIGH'']),
    (''MX_SPI1_SCK_GPIO_AF'', [Ident ''GPIO_AF5_SPI1'']),
    (''MX_USB_DEVICE'', [Num 1]),
    (''MX_USB_DEVICE_VM'', [Ident ''Cdc_FS'']),
    (''MX_USB_DEVICE_Cdc_FS'', [Num 1]),
    (''MX_USB_OTG_FS'', [Num 1]),
    (''MX_USB_OTG_FS_VM'', [Ident ''Device_Only'']),
    (''MX_USB_OTG_FS_Device_Only'', [Num 1])]"
  by (simp add: mx_defines_def MX_Device_h_def)

lemma mx_names_distinct: "distinct mx_names"
  by (simp add: mx_names_def mx_defines_flat)

lemma mx_defines_consistent: "consistent mx_defines"
  using mx_names_distinct unfolding mx_names_def by (rule distinct_consistent)

lemma guard_not_a_constant: "MX_DEVICE_H_guard \<notin> set mx_names"
  by (simp add: mx_names_def mx_defines_flat MX_DEVICE_H_guard_def)

lemma agrees_guard_only:
  assumes "guard \<notin> fst ` set ds"
  shows "agrees ds [guard \<mapsto> []]"
  using assms by (force simp: agrees_def)

lemma include_MX_Device_h_empty:
  "include_MX_Device_h Map.empty = Inr ([MX_DEVICE_H_guard \<mapsto> []] ++ map_of mx_defines)"
proof -
  have "agrees mx_defines [MX_DEVICE_H_guard \<mapsto> []]"
    using guard_not_a_constant by (intro agrees_guard_only) (simp add: mx_names_def)
  with mx_defines_consistent show ?thesis
    by (simp add: include_MX_Device_h_def cpp_include_guarded_def cpp_process_consistent)
qed

lemma MX_env_eq: "MX_env = [MX_DEVICE_H_guard \<mapsto> []] ++ map_of mx_defines"
  by (simp add: MX_env_def include_MX_Device_h_empty)

lemma MX_env_defined:
  assumes "(n, b) \<in> set mx_defines"
  shows "MX_env n = Some b"
  using consistent_map_of [OF mx_defines_consistent assms]
  by (simp add: MX_env_eq map_add_def)

lemma mx_lookup_eval: "mx_lookup n = ([MX_DEVICE_H_guard \<mapsto> []] ++ map_of mx_defines) n"
  by (simp add: mx_lookup_def MX_env_eq)



lemma mx_lookup_defined:
  assumes "(n, b) \<in> set mx_defines"
  shows "mx_lookup n = Some b"
  using MX_env_defined [OF assms] by (simp add: mx_lookup_def)

lemma block_in_defines:
  assumes "(g, ds) \<in> set MX_Device_h" and "(n, b) \<in> set ds"
  shows "(n, b) \<in> set mx_defines"
  using assms unfolding mx_defines_def by force

lemma group_table_names:
  "map fst (concat (map (\<lambda>(g, ds). map (\<lambda>(m, b). (m, g)) ds) MX_Device_h)) = mx_names"
  by (simp add: mx_names_def mx_defines_def MX_Device_h_def)

lemma mx_group_of_block:
  assumes "(g, ds) \<in> set MX_Device_h" and "(n, b) \<in> set ds"
  shows "mx_group_of n = Some g"
proof -
  let ?tab = "concat (map (\<lambda>(g, ds). map (\<lambda>(m, b). (m, g)) ds) MX_Device_h)"
  have "distinct (map fst ?tab)"
    using mx_names_distinct by (simp only: group_table_names)
  moreover have "(n, g) \<in> set ?tab"
    using assms by force
  ultimately have "map_of ?tab n = Some g" by (rule map_of_is_SomeI)
  then show ?thesis by (simp add: mx_group_of_def)
qed

lemma block_name_prefix:
  "\<forall>(g, ds) \<in> set MX_Device_h. \<forall>(n, b) \<in> set ds. prefix (''MX_'' @ group_name g) n"
  by (simp add: MX_Device_h_def)

lemma define_count_distinct:
  "distinct (map fst ds) \<Longrightarrow> (n, b) \<in> set ds \<Longrightarrow> length (filter (\<lambda>(m, c). m = n) ds) = 1"
  by (induction ds) (auto simp: filter_empty_conv image_iff)

lemma define_count_one:
  assumes "(n, b) \<in> set mx_defines"
  shows "define_count n = 1"
  unfolding define_count_def
  using mx_names_distinct assms unfolding mx_names_def by (rule define_count_distinct)

lemma include_equivalent:
  assumes "set ds' = set mx_defines"
  shows "cpp_include_guarded MX_DEVICE_H_guard ds' Map.empty = Inr MX_env"
proof -
  have c': "consistent ds'"
    using mx_defines_consistent assms by (simp add: consistent_def)
  have "MX_DEVICE_H_guard \<notin> fst ` set ds'"
    using guard_not_a_constant assms by (simp add: mx_names_def)
  then have a': "agrees ds' [MX_DEVICE_H_guard \<mapsto> []]" by (rule agrees_guard_only)
  have "map_of ds' = map_of mx_defines"
    using mx_defines_consistent assms by (rule consistent_map_of_eq)
  with cpp_process_consistent [OF c' a'] show ?thesis
    by (simp add: cpp_include_guarded_def MX_env_eq)
qed

lemma include_no_collision:
  assumes "agrees mx_defines env"
  shows "\<exists>env'. include_MX_Device_h env = Inr env'"
proof (cases "env MX_DEVICE_H_guard")
  case (Some a)
  then show ?thesis by (simp add: include_MX_Device_h_def cpp_include_guarded_def)
next
  case None
  have "agrees mx_defines (env(MX_DEVICE_H_guard \<mapsto> []))"
  proof (rule agreesI)
    fix n b assume nb: "(n, b) \<in> set mx_defines"
    then have "n \<in> set mx_names" by (force simp: mx_names_def)
    with guard_not_a_constant have "n \<noteq> MX_DEVICE_H_guard" by blast
    with agreesD [OF assms nb]
    show "(env(MX_DEVICE_H_guard \<mapsto> [])) n = None \<or> (env(MX_DEVICE_H_guard \<mapsto> [])) n = Some b"
      by simp
  qed
  with mx_defines_consistent None show ?thesis
    by (simp add: include_MX_Device_h_def cpp_include_guarded_def cpp_process_consistent)
qed

lemma pin_consts_all:
  "list_all (\<lambda>p. list_all (\<lambda>a. \<exists>t. (pin_const p a, [Ident t]) \<in> set mx_defines) pin_attrs) mx_pins"
  by (simp add: mx_pins_def pin_attrs_def pin_const_def mx_defines_flat)

lemma pin_const_defined:
  assumes "p \<in> set mx_pins" and "a \<in> set pin_attrs"
  shows "\<exists>t. (pin_const p a, [Ident t]) \<in> set mx_defines"
  using pin_consts_all assms unfolding list_all_iff by blast

lemma pin_tuple_unique:
  assumes "p \<in> set mx_pins"
  shows "\<exists>!t. pin_has_tuple p t"
proof -
  have attrs: "''GPIOx'' \<in> set pin_attrs" "''GPIO_Mode'' \<in> set pin_attrs"
    "''GPIO_Speed'' \<in> set pin_attrs" "''GPIO_AF'' \<in> set pin_attrs"
    by (simp_all add: pin_attrs_def)
  obtain x m s f where
    x: "(pin_const p ''GPIOx'', [Ident x]) \<in> set mx_defines" and
    m: "(pin_const p ''GPIO_Mode'', [Ident m]) \<in> set mx_defines" and
    s: "(pin_const p ''GPIO_Speed'', [Ident s]) \<in> set mx_defines" and
    f: "(pin_const p ''GPIO_AF'', [Ident f]) \<in> set mx_defines"
    using attrs pin_const_defined [OF assms] by meson
  show ?thesis
  proof (rule ex1I)
    show "pin_has_tuple p ([Ident x], [Ident m], [Ident s], [Ident f])"
      using x m s f by (simp add: pin_has_tuple_def)
  next
    fix t assume t: "pin_has_tuple p t"
    obtain x' m' s' f' where t_eq: "t = (x', m', s', f')" by (cases t)
    from t t_eq have
      "(pin_const p ''GPIOx'', x') \<in> set mx_defines"
      "(pin_const p ''GPIO_Mode'', m') \<in> set mx_defines"
      "(pin_const p ''GPIO_Speed'', s') \<in> set mx_defines"
      "(pin_const p ''GPIO_AF'', f') \<in> set mx_defines"
      by (simp_all add: pin_has_tuple_def)
    then have "x' = [Ident x]" "m' = [Ident m]" "s' = [Ident s]" "f' = [Ident f]"
      using x m s f consistentD [OF mx_defines_consistent] by blast+
    with t_eq show "t = ([Ident x], [Ident m], [Ident s], [Ident f])" by simp
  qed
qed


section \<open>The constant table\<close>

text \<open>
  Claim C1. Every constant that \<open>MX_Device.h\<close> defines is bound in the constant
  environment to the replacement list given in the file, lies in the block of its peripheral
  and carries that peripheral's name as prefix. Declaring the constants anew from the
  specification's data model gives the header's table, block by block, name by name and
  value by value; and any list of directives with the same name/value pairs (in any order,
  with repetitions) gives the same environment as the header.
\<close>

theorem C1_constant_table:
  "(\<forall>(g, ds) \<in> set MX_Device_h. \<forall>(n, b) \<in> set ds.
      mx_lookup n = Some b \<and> mx_group_of n = Some g \<and> prefix (''MX_'' @ group_name g) n) \<and>
   declare_device MX_Device_model = MX_Device_h \<and>
   (\<forall>ds'. set ds' = set mx_defines \<longrightarrow>
      cpp_include_guarded MX_DEVICE_H_guard ds' Map.empty = Inr MX_env)"
proof (intro conjI)
  show "\<forall>(g, ds) \<in> set MX_Device_h. \<forall>(n, b) \<in> set ds.
      mx_lookup n = Some b \<and> mx_group_of n = Some g \<and> prefix (''MX_'' @ group_name g) n"
  proof (intro ballI, clarify, intro conjI)
    fix g ds n b
    assume blk: "(g, ds) \<in> set MX_Device_h" and nb: "(n, b) \<in> set ds"
    show "mx_lookup n = Some b"
      using block_in_defines [OF blk nb] by (rule mx_lookup_defined)
    show "mx_group_of n = Some g"
      using blk nb by (rule mx_group_of_block)
    show "prefix (''MX_'' @ group_name g) n"
      using block_name_prefix blk nb by blast
  qed
  show "declare_device MX_Device_model = MX_Device_h"
    by (simp add: declare_device_def declare_peripheral_def declare_pin_def pin_const_def
        MX_Device_model_def MX_Device_h_def Let_def)
  show "\<forall>ds'. set ds' = set mx_defines \<longrightarrow>
      cpp_include_guarded MX_DEVICE_H_guard ds' Map.empty = Inr MX_env"
    using include_equivalent by blast
qed

theorem C1_constant_table_witness:
  "(G_USB_OTG_FS,
      [(''MX_USB_OTG_FS'', [Num 1]),
       (''MX_USB_OTG_FS_VM'', [Ident ''Device_Only'']),
       (''MX_USB_OTG_FS_Device_Only'', [Num 1])]) \<in> set MX_Device_h \<and>
   mx_lookup ''MX_USB_OTG_FS_VM'' = Some [Ident ''Device_Only''] \<and>
   mx_group_of ''MX_USB_OTG_FS_VM'' = Some G_USB_OTG_FS \<and>
   prefix ''MX_USB_OTG_FS'' ''MX_USB_OTG_FS_VM'' \<and>
   set (rev mx_defines) = set mx_defines \<and>
   cpp_include_guarded MX_DEVICE_H_guard (rev mx_defines) Map.empty = Inr MX_env"
proof -
  let ?blk = "[(''MX_USB_OTG_FS'', [Num 1]),
       (''MX_USB_OTG_FS_VM'', [Ident ''Device_Only'']),
       (''MX_USB_OTG_FS_Device_Only'', [Num 1])]"
  have blk: "(G_USB_OTG_FS, ?blk) \<in> set MX_Device_h"
    by (simp add: MX_Device_h_def)
  have nb: "(''MX_USB_OTG_FS_VM'', [Ident ''Device_Only'']) \<in> set ?blk"
    by simp
  have perm: "set (rev mx_defines) = set mx_defines"
    by simp
  from C1_constant_table blk nb have
    "mx_lookup ''MX_USB_OTG_FS_VM'' = Some [Ident ''Device_Only''] \<and>
     mx_group_of ''MX_USB_OTG_FS_VM'' = Some G_USB_OTG_FS \<and>
     prefix (''MX_'' @ group_name G_USB_OTG_FS) ''MX_USB_OTG_FS_VM''"
    by blast
  moreover from C1_constant_table perm have
    "cpp_include_guarded MX_DEVICE_H_guard (rev mx_defines) Map.empty = Inr MX_env"
    by blast
  ultimately show ?thesis using blk perm by simp
qed


section \<open>Single constants\<close>

text \<open>
  Claim C2. \<open>MX_SPI1_PERIPH_CLOCK_FREQ\<close> is exactly 84000000, and every name of the header
  that ends in \<open>PERIPH_CLOCK_FREQ\<close> lies in the SPI1 block (it is that one constant): no
  other peripheral block carries a clock frequency.
\<close>

theorem C2_spi1_clock_freq:
  "mx_lookup ''MX_SPI1_PERIPH_CLOCK_FREQ'' = Some [Num 84000000] \<and>
   mx_group_of ''MX_SPI1_PERIPH_CLOCK_FREQ'' = Some G_SPI1 \<and>
   (\<forall>(g, ds) \<in> set MX_Device_h. \<forall>(n, b) \<in> set ds.
      suffix ''PERIPH_CLOCK_FREQ'' n \<longrightarrow> g = G_SPI1 \<and> n = ''MX_SPI1_PERIPH_CLOCK_FREQ'')"
proof (intro conjI)
  show "mx_lookup ''MX_SPI1_PERIPH_CLOCK_FREQ'' = Some [Num 84000000]"
    by (rule mx_lookup_defined) (simp add: mx_defines_flat)
  show "mx_group_of ''MX_SPI1_PERIPH_CLOCK_FREQ'' = Some G_SPI1"
    by (simp add: mx_group_of_def MX_Device_h_def)
  show "\<forall>(g, ds) \<in> set MX_Device_h. \<forall>(n, b) \<in> set ds.
      suffix ''PERIPH_CLOCK_FREQ'' n \<longrightarrow> g = G_SPI1 \<and> n = ''MX_SPI1_PERIPH_CLOCK_FREQ''"
    by (simp add: MX_Device_h_def suffix_to_prefix)
qed

theorem C2_spi1_clock_freq_witness:
  "(G_SPI1, snd (MX_Device_h ! 2)) \<in> set MX_Device_h \<and>
   (''MX_SPI1_PERIPH_CLOCK_FREQ'', [Num 84000000]) \<in> set (snd (MX_Device_h ! 2)) \<and>
   suffix ''PERIPH_CLOCK_FREQ'' ''MX_SPI1_PERIPH_CLOCK_FREQ'' \<and>
   mx_lookup ''MX_SPI1_PERIPH_CLOCK_FREQ'' = Some [Num 84000000] \<and>
   mx_group_of ''MX_SPI1_PERIPH_CLOCK_FREQ'' = Some G_SPI1"
proof -
  have "(G_SPI1, snd (MX_Device_h ! 2)) \<in> set MX_Device_h"
    by (simp add: MX_Device_h_def)
  moreover have
    "(''MX_SPI1_PERIPH_CLOCK_FREQ'', [Num 84000000]) \<in> set (snd (MX_Device_h ! 2))"
    by (simp add: MX_Device_h_def)
  moreover have "suffix ''PERIPH_CLOCK_FREQ'' ''MX_SPI1_PERIPH_CLOCK_FREQ''"
    by (simp add: suffix_to_prefix)
  ultimately show ?thesis using C2_spi1_clock_freq by blast
qed

text \<open>
  Claim C3. \<open>MX_USB_DEVICE_VM\<close> is the token \<open>Cdc_FS\<close>, the CDC full-speed virtual mode,
  and the companion constant \<open>MX_USB_DEVICE_Cdc_FS\<close> is 1; both lie in the USB_DEVICE block.
\<close>

theorem C3_usb_device_vm:
  "mx_lookup ''MX_USB_DEVICE_VM'' = Some [Ident ''Cdc_FS''] \<and>
   mx_lookup ''MX_USB_DEVICE_Cdc_FS'' = Some [Num 1] \<and>
   mx_group_of ''MX_USB_DEVICE_VM'' = Some G_USB_DEVICE \<and>
   mx_group_of ''MX_USB_DEVICE_Cdc_FS'' = Some G_USB_DEVICE"
  by (simp add: mx_lookup_eval mx_defines_flat map_add_def mx_group_of_def MX_Device_h_def)

text \<open>
  Claim C4. \<open>MX_I2C1_SCL_GPIOx\<close> is the token \<open>GPIOB\<close>, port B. The header gives \<open>GPIOB\<close>
  no definition of its own, so within the header the replacement ends at this token.
\<close>

theorem C4_i2c1_scl_port:
  "mx_lookup ''MX_I2C1_SCL_GPIOx'' = Some [Ident ''GPIOB''] \<and>
   mx_lookup ''GPIOB'' = None"
  by (simp add: mx_lookup_eval mx_defines_flat map_add_def MX_DEVICE_H_guard_def)

text \<open>
  Claim C5. \<open>MX_SPI1_SCK_GPIO_Speed\<close> is the token \<open>GPIO_SPEED_FREQ_VERY_HIGH\<close>, while the
  speed constants of the other two SPI1 pins, MISO and MOSI, are \<open>GPIO_SPEED_FREQ_LOW\<close>.
\<close>

theorem C5_spi1_speeds:
  "mx_lookup ''MX_SPI1_SCK_GPIO_Speed'' = Some [Ident ''GPIO_SPEED_FREQ_VERY_HIGH''] \<and>
   mx_lookup ''MX_SPI1_MISO_GPIO_Speed'' = Some [Ident ''GPIO_SPEED_FREQ_LOW''] \<and>
   mx_lookup ''MX_SPI1_MOSI_GPIO_Speed'' = Some [Ident ''GPIO_SPEED_FREQ_LOW'']"
  by (simp add: mx_lookup_eval mx_defines_flat map_add_def)

text \<open>
  Claim C9. \<open>MX_USB_OTG_FS_VM\<close> is the token \<open>Device_Only\<close>, the device-only virtual mode,
  and the companion constant \<open>MX_USB_OTG_FS_Device_Only\<close> is 1; both lie in the USB_OTG_FS
  block.
\<close>

theorem C9_usb_otg_fs_vm:
  "mx_lookup ''MX_USB_OTG_FS_VM'' = Some [Ident ''Device_Only''] \<and>
   mx_lookup ''MX_USB_OTG_FS_Device_Only'' = Some [Num 1] \<and>
   mx_group_of ''MX_USB_OTG_FS_VM'' = Some G_USB_OTG_FS \<and>
   mx_group_of ''MX_USB_OTG_FS_Device_Only'' = Some G_USB_OTG_FS"
  by (simp add: mx_lookup_eval mx_defines_flat map_add_def mx_group_of_def MX_Device_h_def)

text \<open>
  Claim C10. Each of the four presence flags \<open>MX_I2C1\<close>, \<open>MX_SPI1\<close>, \<open>MX_USB_DEVICE\<close> and
  \<open>MX_USB_OTG_FS\<close> is defined and is 1, so that both an \<open>#ifdef\<close> and an \<open>#if\<close> on any of
  them holds.
\<close>

theorem C10_presence_flags:
  "mx_lookup ''MX_I2C1'' = Some [Num 1] \<and>
   mx_lookup ''MX_SPI1'' = Some [Num 1] \<and>
   mx_lookup ''MX_USB_DEVICE'' = Some [Num 1] \<and>
   mx_lookup ''MX_USB_OTG_FS'' = Some [Num 1] \<and>
   cpp_ifdef MX_env ''MX_I2C1'' \<and> cpp_if MX_env ''MX_I2C1'' \<and>
   cpp_ifdef MX_env ''MX_SPI1'' \<and> cpp_if MX_env ''MX_SPI1'' \<and>
   cpp_ifdef MX_env ''MX_USB_DEVICE'' \<and> cpp_if MX_env ''MX_USB_DEVICE'' \<and>
   cpp_ifdef MX_env ''MX_USB_OTG_FS'' \<and> cpp_if MX_env ''MX_USB_OTG_FS''"
proof -
  have flags:
    "MX_env ''MX_I2C1'' = Some [Num 1]" "MX_env ''MX_SPI1'' = Some [Num 1]"
    "MX_env ''MX_USB_DEVICE'' = Some [Num 1]" "MX_env ''MX_USB_OTG_FS'' = Some [Num 1]"
    by (rule MX_env_defined, simp add: mx_defines_flat)+
  then show ?thesis by (simp add: mx_lookup_def cpp_ifdef_def cpp_if_def)
qed


section \<open>Pin entries\<close>

text \<open>
  Claim C6. Each of the five pins I2C1_SCL, I2C1_SDA, SPI1_MISO, SPI1_MOSI and SPI1_SCK has
  exactly one port/mode/speed/alternate-function tuple in the header; every attribute
  constant of a pin is defined by exactly one directive, and two directives for the same
  attribute of the same pin never differ in value.
\<close>

theorem C6_pin_tuple_unique:
  "\<forall>p \<in> set mx_pins.
     (\<exists>!t. pin_has_tuple p t) \<and>
     (\<forall>a \<in> set pin_attrs.
        define_count (pin_const p a) = 1 \<and>
        (\<forall>b b'. (pin_const p a, b) \<in> set mx_defines \<longrightarrow>
                 (pin_const p a, b') \<in> set mx_defines \<longrightarrow> b = b'))"
proof (intro ballI conjI allI impI)
  fix p assume "p \<in> set mx_pins"
  then show "\<exists>!t. pin_has_tuple p t" by (rule pin_tuple_unique)
next
  fix p a assume "p \<in> set mx_pins" and "a \<in> set pin_attrs"
  then obtain t where "(pin_const p a, [Ident t]) \<in> set mx_defines"
    using pin_const_defined by blast
  then show "define_count (pin_const p a) = 1" by (rule define_count_one)
next
  fix p a b b'
  assume "(pin_const p a, b) \<in> set mx_defines" and "(pin_const p a, b') \<in> set mx_defines"
  with mx_defines_consistent show "b = b'" by (rule consistentD)
qed

theorem C6_pin_tuple_unique_witness:
  "''SPI1_SCK'' \<in> set mx_pins \<and> ''GPIO_Speed'' \<in> set pin_attrs \<and>
   (THE t. pin_has_tuple ''SPI1_SCK'' t) =
     ([Ident ''GPIOA''], [Ident ''GPIO_MODE_AF_PP''],
      [Ident ''GPIO_SPEED_FREQ_VERY_HIGH''], [Ident ''GPIO_AF5_SPI1'']) \<and>
   define_count (pin_const ''SPI1_SCK'' ''GPIO_Speed'') = 1"
proof (intro conjI)
  show p: "''SPI1_SCK'' \<in> set mx_pins" by (simp add: mx_pins_def)
  show a: "''GPIO_Speed'' \<in> set pin_attrs" by (simp add: pin_attrs_def)
  have t: "pin_has_tuple ''SPI1_SCK''
     ([Ident ''GPIOA''], [Ident ''GPIO_MODE_AF_PP''],
      [Ident ''GPIO_SPEED_FREQ_VERY_HIGH''], [Ident ''GPIO_AF5_SPI1''])"
    by (simp add: pin_has_tuple_def pin_const_def mx_defines_flat)
  note inst = bspec [OF C6_pin_tuple_unique p]
  from inst have u: "\<exists>!t. pin_has_tuple ''SPI1_SCK'' t" by (rule conjunct1)
  from u t show "(THE t. pin_has_tuple ''SPI1_SCK'' t) =
     ([Ident ''GPIOA''], [Ident ''GPIO_MODE_AF_PP''],
      [Ident ''GPIO_SPEED_FREQ_VERY_HIGH''], [Ident ''GPIO_AF5_SPI1''])"
    by (rule the1_equality)
  from bspec [OF conjunct2 [OF inst] a]
  show "define_count (pin_const ''SPI1_SCK'' ''GPIO_Speed'') = 1" by (rule conjunct1)
qed

text \<open>
  Claim C7. There are five pins and seven attributes, and every pin has a constant for each
  attribute: \<open>_Pin\<close>, \<open>_GPIO_Pin\<close>, \<open>_GPIOx\<close>, \<open>_GPIO_Mode\<close>, \<open>_GPIO_PuPd\<close>, \<open>_GPIO_Speed\<close>
  and \<open>_GPIO_AF\<close>, each a single identifier. The five pins are all the pin entries of the
  header: its port constants (\<open>_GPIOx\<close>) are those of the five pins, in file order.
\<close>

theorem C7_pin_attributes_complete:
  "length mx_pins = 5 \<and> distinct mx_pins \<and> length pin_attrs = 7 \<and> distinct pin_attrs \<and>
   filter (suffix ''_GPIOx'') mx_names = map (\<lambda>p. pin_const p ''GPIOx'') mx_pins \<and>
   (\<forall>p \<in> set mx_pins. \<forall>a \<in> set pin_attrs. \<exists>t. mx_lookup (pin_const p a) = Some [Ident t])"
proof (intro conjI ballI)
  show "length mx_pins = 5" "distinct mx_pins" by (simp_all add: mx_pins_def)
  show "length pin_attrs = 7" "distinct pin_attrs" by (simp_all add: pin_attrs_def)
  show "filter (suffix ''_GPIOx'') mx_names = map (\<lambda>p. pin_const p ''GPIOx'') mx_pins"
    by (simp add: mx_names_def mx_defines_flat mx_pins_def pin_const_def suffix_to_prefix)
next
  fix p a assume "p \<in> set mx_pins" and "a \<in> set pin_attrs"
  then obtain t where "(pin_const p a, [Ident t]) \<in> set mx_defines"
    using pin_const_defined by blast
  then have "mx_lookup (pin_const p a) = Some [Ident t]" by (rule mx_lookup_defined)
  then show "\<exists>t. mx_lookup (pin_const p a) = Some [Ident t]" ..
qed

theorem C7_pin_attributes_complete_witness:
  "''I2C1_SDA'' \<in> set mx_pins \<and> ''GPIO_PuPd'' \<in> set pin_attrs \<and>
   (\<exists>t. mx_lookup ''MX_I2C1_SDA_GPIO_PuPd'' = Some [Ident t])"
proof -
  have p: "''I2C1_SDA'' \<in> set mx_pins" by (simp add: mx_pins_def)
  have a: "''GPIO_PuPd'' \<in> set pin_attrs" by (simp add: pin_attrs_def)
  from C7_pin_attributes_complete p a
  have "\<exists>t. mx_lookup (pin_const ''I2C1_SDA'' ''GPIO_PuPd'') = Some [Ident t]" by blast
  with p a show ?thesis by (simp add: pin_const_def)
qed


section \<open>Lookup cannot fail\<close>

text \<open>
  Claim C8. Including the header into an empty environment succeeds and yields the
  constant environment; the lookup of every name of the table returns a value. More
  generally the inclusion succeeds in every environment that has no conflicting definition
  of one of the header's names: the compile-time name collision is the only error there is.
\<close>

theorem C8_lookup_total:
  "include_MX_Device_h Map.empty = Inr MX_env \<and>
   (\<forall>n \<in> set mx_names. \<exists>b. mx_lookup n = Some b) \<and>
   (\<forall>env. agrees mx_defines env \<longrightarrow> (\<exists>env'. include_MX_Device_h env = Inr env'))"
proof (intro conjI ballI allI impI)
  show "include_MX_Device_h Map.empty = Inr MX_env"
    by (simp add: include_MX_Device_h_empty MX_env_eq)
next
  fix n assume "n \<in> set mx_names"
  then obtain b where "(n, b) \<in> set mx_defines" by (auto simp: mx_names_def)
  then have "mx_lookup n = Some b" by (rule mx_lookup_defined)
  then show "\<exists>b. mx_lookup n = Some b" ..
next
  fix env assume "agrees mx_defines env"
  then show "\<exists>env'. include_MX_Device_h env = Inr env'" by (rule include_no_collision)
qed

theorem C8_lookup_total_witness:
  "''MX_DEVICE_VERSION'' \<in> set mx_names \<and>
   (\<exists>b. mx_lookup ''MX_DEVICE_VERSION'' = Some b) \<and>
   agrees mx_defines [''MX_I2C1'' \<mapsto> [Num 1]] \<and>
   (\<exists>env'. include_MX_Device_h [''MX_I2C1'' \<mapsto> [Num 1]] = Inr env')"
proof -
  have n: "''MX_DEVICE_VERSION'' \<in> set mx_names"
    by (simp add: mx_names_def mx_defines_flat)
  have a: "agrees mx_defines [''MX_I2C1'' \<mapsto> [Num 1]]"
    by (simp add: agrees_def mx_defines_flat)
  from C8_lookup_total n have "\<exists>b. mx_lookup ''MX_DEVICE_VERSION'' = Some b" by blast
  moreover from C8_lookup_total a
  have "\<exists>env'. include_MX_Device_h [''MX_I2C1'' \<mapsto> [Num 1]] = Inr env'" by blast
  ultimately show ?thesis using n a by simp
qed

end
